theory Spec2Isabelle
  imports Main
begin

section \<open>The outside world: wallet provider, remote contract, script runtime\<close>

text \<open>
  Both components (\<open>Hero1732186907/component.tsx\<close>, the expanded one with four
  operations, and \<open>Footer1732186907/component.tsx\<close>, the minimal one with two) talk to
  an injected wallet provider and to a remote factory contract. Every \<open>await\<close> of the
  source either yields a value or throws an error carrying a message text.
\<close>

datatype 'a outcome = Resolved 'a | Rejected string

text \<open>
  A transaction receipt as the components read it: a list of log entries, each with an
  optional event name (\<open>e.event\<close>) and optional decoded arguments (\<open>e.args\<close>), whose
  \<open>pool\<close> member may itself be undefined. \<open>None\<close> is the script's \<open>undefined\<close>.
\<close>

record event_args =
  pool :: "string option"

record log_event =
  event :: "string option"
  args :: "event_args option"

record receipt =
  events :: "log_event list"

record 'n parameters =
  factory :: string
  token0 :: string
  token1 :: string
  param_fee :: 'n
  tickSpacing :: 'n

text \<open>
  What the page finds at \<open>window.ethereum\<close>: nothing, \<open>null\<close>, or an injected wallet
  provider object. Hero tests it for truthiness, Footer with
  \<open>typeof window.ethereum !== 'undefined'\<close>, which \<open>null\<close> passes.
\<close>

datatype injected = Undefined | Null | Injected

fun truthy :: "injected \<Rightarrow> bool" where
  "truthy Injected = True"
| "truthy _ = False"

text \<open>
  The world answers each request of one operation. \<open>'n\<close> is the script's number type;
  \<open>parseInt\<close>, the text of a number inside a template literal (\<open>toString\<close>) and the
  message of the TypeError raised by reading a member of \<open>undefined\<close>
  (\<open>undefined_read\<close>, by member name) belong to the runtime and are taken from it.
\<close>

record 'n world =
  ethereum :: injected
  eth_requestAccounts :: "unit outcome"
  getNetwork :: "nat outcome"
  wallet_switchEthereumChain :: "nat \<Rightarrow> unit outcome"
  remote_createPool :: "string \<Rightarrow> string \<Rightarrow> 'n \<Rightarrow> receipt outcome outcome"
  remote_feeAmountTickSpacing :: "'n \<Rightarrow> 'n outcome"
  remote_getPool :: "string \<Rightarrow> string \<Rightarrow> 'n \<Rightarrow> string outcome"
  remote_parameters :: "'n parameters outcome"
  parseInt :: "string \<Rightarrow> 'n"
  toString :: "'n \<Rightarrow> string"
  undefined_read :: "string \<Rightarrow> string"

text \<open>
  What an operation does, in order: requests to the provider, calls on the contract
  handle, and writes to the displayed state.
\<close>

datatype 'n action =
    RequestAccounts
  | GetNetwork
  | SwitchChain nat
  | Call_createPool string string 'n
  | Wait_tx
  | Call_feeAmountTickSpacing 'n
  | Call_getPool string string 'n
  | Call_parameters
  | SetError string
  | SetResult string
  | SetErrorMessage string
  | SetPoolAddress "string option"

fun is_contract_call :: "'n action \<Rightarrow> bool" where
  "is_contract_call (Call_createPool a b f) = True"
| "is_contract_call Wait_tx = True"
| "is_contract_call (Call_feeAmountTickSpacing f) = True"
| "is_contract_call (Call_getPool a b f) = True"
| "is_contract_call Call_parameters = True"
| "is_contract_call _ = False"

fun is_provider_request :: "'n action \<Rightarrow> bool" where
  "is_provider_request RequestAccounts = True"
| "is_provider_request GetNetwork = True"
| "is_provider_request (SwitchChain n) = True"
| "is_provider_request _ = False"

text \<open>A failure is surfaced by writing a non-empty text to the error field.\<close>

fun is_failure :: "'n action \<Rightarrow> bool" where
  "is_failure (SetError m) = (m \<noteq> [])"
| "is_failure (SetErrorMessage m) = (m \<noteq> [])"
| "is_failure _ = False"

text \<open>Nothing follows a surfaced failure in a run.\<close>

fun failure_is_last :: "'n action list \<Rightarrow> bool" where
  "failure_is_last [] = True"
| "failure_is_last (a # rest) = ((is_failure a \<longrightarrow> rest = []) \<and> failure_is_last rest)"

section \<open>Session handles and constants\<close>

datatype provider_handle = Web3Provider

datatype signer_handle = JsonRpcSigner

text \<open>
  An entry of a \<open>contractABI\<close> literal. The literals of both components give each entry
  a name, a state mutability, inputs and outputs, and no \<open>type\<close> member.
\<close>

record fragment =
  frag_type :: "string option"
  frag_name :: string
  stateMutability :: string
  inputs :: "(string \<times> string) list"
  outputs :: "(string \<times> string) list"

record contract_handle =
  address :: string
  interface :: "fragment list"
  runner :: signer_handle

text \<open>
  The constructors of the contract library (ethers, version 5 API), as far as \<open>init\<close>
  depends on them; \<open>None\<close> stands for a thrown error. \<open>new ethers.Contract\<close> turns
  every ABI entry into a fragment by its \<open>type\<close> member and throws "invalid fragment
  object" on an entry whose \<open>type\<close> is none of the kinds below.
  \<open>new ethers.providers.Web3Provider\<close> throws "missing provider" on \<open>null\<close> and
  \<open>undefined\<close>.
\<close>

definition fragment_kinds :: "string list" where
  "fragment_kinds =
     [''function'', ''event'', ''constructor'', ''error'', ''fallback'', ''receive'']"

definition fragment_accepted :: "fragment \<Rightarrow> bool" where
  "fragment_accepted fr =
     (case frag_type fr of None \<Rightarrow> False | Some k \<Rightarrow> k \<in> set fragment_kinds)"

definition new_Contract :: "string \<Rightarrow> fragment list \<Rightarrow> signer_handle \<Rightarrow> contract_handle option" where
  "new_Contract addr abi sg =
     (if list_all fragment_accepted abi
      then Some \<lparr>address = addr, interface = abi, runner = sg\<rparr>
      else None)"

fun new_Web3Provider :: "injected \<Rightarrow> provider_handle option" where
  "new_Web3Provider Injected = Some Web3Provider"
| "new_Web3Provider _ = None"



definition contractAddress :: string where
  "contractAddress = ''0x1F98431c8aD98523631AE4a59f267346ea31F984''"

definition chainId :: nat where
  "chainId = 1"

record session =
  provider :: "provider_handle option"
  contract :: "contract_handle option"

section \<open>The expanded component (Hero)\<close>

record hero_state = session +
  error :: "string option"
  result :: "string option"

definition hero_contractABI :: "fragment list" where
  "hero_contractABI =
     [\<lparr>frag_type = None, frag_name = ''createPool'', stateMutability = ''nonpayable'',
       inputs = [(''tokenA'', ''address''), (''tokenB'', ''address''), (''fee'', ''uint24'')],
       outputs = [(''pool'', ''address'')]\<rparr>,
      \<lparr>frag_type = None, frag_name = ''feeAmountTickSpacing'', stateMutability = ''view'',
       inputs = [([], ''uint24'')],
       outputs = [([], ''int24'')]\<rparr>,
      \<lparr>frag_type = None, frag_name = ''getPool'', stateMutability = ''view'',
       inputs = [([], ''address''), ([], ''address''), ([], ''uint24'')],
       outputs = [([], ''address'')]\<rparr>,
      \<lparr>frag_type = None, frag_name = ''parameters'', stateMutability = ''view'',
       inputs = [],
       outputs = [(''factory'', ''address''), (''token0'', ''address''),
                  (''token1'', ''address''), (''fee'', ''uint24''),
                  (''tickSpacing'', ''int24'')]\<rparr>]"

definition hero_initial :: hero_state where
  "hero_initial = \<lparr>provider = None, contract = None, error = None, result = None\<rparr>"

text \<open>
  \<open>init\<close>, run once by the mount effect. It has no \<open>try\<close>: when a constructor throws,
  the setters before it have run and those after it have not.
\<close>

definition hero_init :: "'n world \<Rightarrow> hero_state" where
  "hero_init w =
     (if truthy (ethereum w)
      then (case new_Web3Provider (ethereum w) of
              None \<Rightarrow> hero_initial
            | Some web3Provider \<Rightarrow>
                (case new_Contract contractAddress hero_contractABI JsonRpcSigner of
                   None \<Rightarrow> hero_initial\<lparr>provider := Some web3Provider\<rparr>
                 | Some contractInstance \<Rightarrow>
                     hero_initial\<lparr>provider := Some web3Provider,
                                  contract := Some contractInstance\<rparr>))
      else hero_initial\<lparr>error := Some ''Please install MetaMask to use this dApp''\<rparr>)"

text \<open>
  The network check inside \<open>connectWallet\<close> (the \<open>if (network.chainId !== chainId)\<close>
  block), given the chain id the provider reported.
\<close>

definition hero_ensureChain :: "'n world \<Rightarrow> nat \<Rightarrow> hero_state \<Rightarrow> hero_state \<times> 'n action list" where
  "hero_ensureChain w n s =
     (if n \<noteq> chainId
      then (case wallet_switchEthereumChain w chainId of
              Resolved u \<Rightarrow> (s, [SwitchChain chainId])
            | Rejected m \<Rightarrow>
                (s\<lparr>error := Some ''Failed to switch to the correct network''\<rparr>,
                 [SwitchChain chainId, SetError ''Failed to switch to the correct network'']))
      else (s, []))"

definition hero_connectWallet :: "'n world \<Rightarrow> hero_state \<Rightarrow> hero_state \<times> 'n action list" where
  "hero_connectWallet w s =
     (case provider s of
        None \<Rightarrow> (s, [])
      | Some p \<Rightarrow>
          (case eth_requestAccounts w of
             Rejected m \<Rightarrow>
               (s\<lparr>error := Some ''Failed to connect wallet''\<rparr>,
                [RequestAccounts, SetError ''Failed to connect wallet''])
           | Resolved u \<Rightarrow>
               (case getNetwork w of
                  Rejected m \<Rightarrow>
                    (s\<lparr>error := Some ''Failed to connect wallet''\<rparr>,
                     [RequestAccounts, GetNetwork, SetError ''Failed to connect wallet''])
                | Resolved n \<Rightarrow>
                    (case hero_ensureChain w n s of
                       (s', t) \<Rightarrow> (s', [RequestAccounts, GetNetwork] @ t)))))"

text \<open>
  Every operation starts with \<open>if (!contract) await connectWallet()\<close> and goes on under
  \<open>if (contract)\<close>. Both tests read the handle the operation was started with.
\<close>

definition hero_lazy_connect :: "'n world \<Rightarrow> hero_state \<Rightarrow> hero_state \<times> 'n action list" where
  "hero_lazy_connect w s = (if contract s = None then hero_connectWallet w s else (s, []))"

definition hero_fail :: "string \<Rightarrow> string \<Rightarrow> hero_state \<Rightarrow> 'n action list \<Rightarrow> hero_state \<times> 'n action list" where
  "hero_fail prefix m s t = (s\<lparr>error := Some (prefix @ m)\<rparr>, t @ [SetError (prefix @ m)])"

definition hero_succeed :: "string \<Rightarrow> hero_state \<Rightarrow> 'n action list \<Rightarrow> hero_state \<times> 'n action list" where
  "hero_succeed r s t = (s\<lparr>result := Some r\<rparr>, t @ [SetResult r])"

text \<open>The text a template literal gives an optional string.\<close>

definition template_text :: "string option \<Rightarrow> string" where
  "template_text v = (case v of None \<Rightarrow> ''undefined'' | Some x \<Rightarrow> x)"

definition hero_createPool :: "'n world \<Rightarrow> string \<Rightarrow> string \<Rightarrow> 'n \<Rightarrow> hero_state \<Rightarrow> hero_state \<times> 'n action list" where
  "hero_createPool w tokenA' tokenB' fee' s =
     (case hero_lazy_connect w s of
        (s1, t1) \<Rightarrow>
          if contract s \<noteq> None
          then (case remote_createPool w tokenA' tokenB' fee' of
                  Rejected m \<Rightarrow>
                    hero_fail ''Failed to create pool: '' m s1
                      (t1 @ [Call_createPool tokenA' tokenB' fee'])
                | Resolved tx \<Rightarrow>
                    (case tx of
                       Rejected m \<Rightarrow>
                         hero_fail ''Failed to create pool: '' m s1
                           (t1 @ [Call_createPool tokenA' tokenB' fee', Wait_tx])
                     | Resolved rc \<Rightarrow>
                         (case events rc of
                            [] \<Rightarrow>
                              hero_fail ''Failed to create pool: '' (undefined_read w ''args'') s1
                                (t1 @ [Call_createPool tokenA' tokenB' fee', Wait_tx])
                          | e # es \<Rightarrow>
                              (case args e of
                                 None \<Rightarrow>
                                   hero_fail ''Failed to create pool: ''
                                     (undefined_read w ''pool'') s1
                                     (t1 @ [Call_createPool tokenA' tokenB' fee', Wait_tx])
                               | Some a \<Rightarrow>
                                   hero_succeed (''Pool created: '' @ template_text (pool a)) s1
                                     (t1 @ [Call_createPool tokenA' tokenB' fee', Wait_tx])))))
          else (s1, t1))"

definition hero_getFeeAmountTickSpacing :: "'n world \<Rightarrow> 'n \<Rightarrow> hero_state \<Rightarrow> hero_state \<times> 'n action list" where
  "hero_getFeeAmountTickSpacing w fee' s =
     (case hero_lazy_connect w s of
        (s1, t1) \<Rightarrow>
          if contract s \<noteq> None
          then (case remote_feeAmountTickSpacing w fee' of
                  Rejected m \<Rightarrow>
                    hero_fail ''Failed to get fee amount tick spacing: '' m s1
                      (t1 @ [Call_feeAmountTickSpacing fee'])
                | Resolved ts \<Rightarrow>
                    hero_succeed
                      (''Tick spacing for fee '' @ toString w fee' @ '': '' @ toString w ts) s1
                      (t1 @ [Call_feeAmountTickSpacing fee']))
          else (s1, t1))"

definition hero_getPool :: "'n world \<Rightarrow> string \<Rightarrow> string \<Rightarrow> 'n \<Rightarrow> hero_state \<Rightarrow> hero_state \<times> 'n action list" where
  "hero_getPool w tokenA' tokenB' fee' s =
     (case hero_lazy_connect w s of
        (s1, t1) \<Rightarrow>
          if contract s \<noteq> None
          then (case remote_getPool w tokenA' tokenB' fee' of
                  Rejected m \<Rightarrow>
                    hero_fail ''Failed to get pool: '' m s1 (t1 @ [Call_getPool tokenA' tokenB' fee'])
                | Resolved p \<Rightarrow>
                    hero_succeed (''Pool address: '' @ p) s1 (t1 @ [Call_getPool tokenA' tokenB' fee']))
          else (s1, t1))"

definition parameters_text :: "'n world \<Rightarrow> 'n parameters \<Rightarrow> string" where
  "parameters_text w ps =
     ''Factory: '' @ factory ps @ '', Token0: '' @ token0 ps @ '', Token1: '' @ token1 ps
       @ '', Fee: '' @ toString w (param_fee ps)
       @ '', Tick Spacing: '' @ toString w (tickSpacing ps)"

definition hero_getParameters :: "'n world \<Rightarrow> hero_state \<Rightarrow> hero_state \<times> 'n action list" where
  "hero_getParameters w s =
     (case hero_lazy_connect w s of
        (s1, t1) \<Rightarrow>
          if contract s \<noteq> None
          then (case remote_parameters w of
                  Rejected m \<Rightarrow>
                    hero_fail ''Failed to get parameters: '' m s1 (t1 @ [Call_parameters])
                | Resolved ps \<Rightarrow>
                    hero_succeed (parameters_text w ps) s1 (t1 @ [Call_parameters]))
          else (s1, t1))"

datatype 'n hero_op =
    CreatePool string string 'n
  | GetFeeAmountTickSpacing 'n
  | GetPool string string 'n
  | GetParameters

fun hero_run :: "'n world \<Rightarrow> 'n hero_op \<Rightarrow> hero_state \<Rightarrow> hero_state \<times> 'n action list" where
  "hero_run w (CreatePool a b f) s = hero_createPool w a b f s"
| "hero_run w (GetFeeAmountTickSpacing f) s = hero_getFeeAmountTickSpacing w f s"
| "hero_run w (GetPool a b f) s = hero_getPool w a b f s"
| "hero_run w GetParameters s = hero_getParameters w s"

text \<open>Operations triggered one after another, each answered by its own world.\<close>

fun hero_runs :: "('n world \<times> 'n hero_op) list \<Rightarrow> hero_state \<Rightarrow> hero_state \<times> 'n action list" where
  "hero_runs [] s = (s, [])"
| "hero_runs ((w, op) # rest) s =
     (case hero_run w op s of
        (s1, t1) \<Rightarrow> (case hero_runs rest s1 of (s2, t2) \<Rightarrow> (s2, t1 @ t2)))"

text \<open>A field is shown when it holds a non-empty text.\<close>

definition shown :: "string option \<Rightarrow> bool" where
  "shown v = (case v of None \<Rightarrow> False | Some x \<Rightarrow> x \<noteq> [])"

section \<open>The minimal component (Footer)\<close>

text \<open>
  The text fields \<open>tokenA\<close>, \<open>tokenB\<close> and \<open>fee\<close> are state, written by the input
  elements; \<open>poolAddress\<close> receives whatever the contract layer hands over, which for a
  decoded event member may be \<open>undefined\<close> (\<open>None\<close>).
\<close>

record footer_state = session +
  signer :: "signer_handle option"
  tokenA :: string
  tokenB :: string
  fee :: string
  poolAddress :: "string option"
  errorMessage :: string

definition footer_contractABI :: "fragment list" where
  "footer_contractABI =
     [\<lparr>frag_type = None, frag_name = ''createPool'', stateMutability = ''nonpayable'',
       inputs = [(''tokenA'', ''address''), (''tokenB'', ''address''), (''fee'', ''uint24'')],
       outputs = [(''pool'', ''address'')]\<rparr>,
      \<lparr>frag_type = None, frag_name = ''getPool'', stateMutability = ''view'',
       inputs = [([], ''address''), ([], ''address''), ([], ''uint24'')],
       outputs = [([], ''address'')]\<rparr>]"

definition footer_initial :: footer_state where
  "footer_initial =
     \<lparr>provider = None, contract = None, signer = None, tokenA = [], tokenB = [], fee = [],
      poolAddress = Some [], errorMessage = []\<rparr>"

definition footer_init :: "'n world \<Rightarrow> footer_state" where
  "footer_init w =
     (if ethereum w \<noteq> Undefined
      then (case new_Web3Provider (ethereum w) of
              None \<Rightarrow> footer_initial
            | Some web3Provider \<Rightarrow>
                (case new_Contract contractAddress footer_contractABI JsonRpcSigner of
                   None \<Rightarrow>
                     footer_initial\<lparr>provider := Some web3Provider, signer := Some JsonRpcSigner\<rparr>
                 | Some factoryContract \<Rightarrow>
                     footer_initial\<lparr>provider := Some web3Provider, signer := Some JsonRpcSigner,
                                    contract := Some factoryContract\<rparr>))
      else footer_initial\<lparr>errorMessage := ''Please install MetaMask to use this dApp''\<rparr>)"

definition footer_ensureChain :: "'n world \<Rightarrow> nat \<Rightarrow> footer_state \<Rightarrow> footer_state \<times> 'n action list" where
  "footer_ensureChain w n s =
     (if n \<noteq> chainId
      then (case wallet_switchEthereumChain w chainId of
              Resolved u \<Rightarrow> (s, [SwitchChain chainId])
            | Rejected m \<Rightarrow>
                (s\<lparr>errorMessage := ''Failed to switch to the correct network''\<rparr>,
                 [SwitchChain chainId,
                  SetErrorMessage ''Failed to switch to the correct network'']))
      else (s, []))"

definition footer_connectWallet :: "'n world \<Rightarrow> footer_state \<Rightarrow> footer_state \<times> 'n action list" where
  "footer_connectWallet w s =
     (case provider s of
        None \<Rightarrow> (s, [])
      | Some p \<Rightarrow>
          (case eth_requestAccounts w of
             Rejected m \<Rightarrow>
               (s\<lparr>errorMessage := ''Failed to connect wallet''\<rparr>,
                [RequestAccounts, SetErrorMessage ''Failed to connect wallet''])
           | Resolved u \<Rightarrow>
               (case getNetwork w of
                  Rejected m \<Rightarrow>
                    (s\<lparr>errorMessage := ''Failed to connect wallet''\<rparr>,
                     [RequestAccounts, GetNetwork, SetErrorMessage ''Failed to connect wallet''])
                | Resolved n \<Rightarrow>
                    (case footer_ensureChain w n s of
                       (s', t) \<Rightarrow> (s', [RequestAccounts, GetNetwork] @ t)))))"

text \<open>
  \<open>if (!contract || !signer) { await connectWallet(); if (!contract || !signer) return; }\<close>:
  both tests read the handles the operation was started with.
\<close>

definition footer_unbound :: "footer_state \<Rightarrow> bool" where
  "footer_unbound s = (contract s = None \<or> signer s = None)"

definition footer_lazy_connect :: "'n world \<Rightarrow> footer_state \<Rightarrow> footer_state \<times> 'n action list" where
  "footer_lazy_connect w s = (if footer_unbound s then footer_connectWallet w s else (s, []))"

definition footer_fail :: "string \<Rightarrow> string \<Rightarrow> footer_state \<Rightarrow> 'n action list \<Rightarrow> footer_state \<times> 'n action list" where
  "footer_fail prefix m s t = (s\<lparr>errorMessage := prefix @ m\<rparr>, t @ [SetErrorMessage (prefix @ m)])"

definition footer_succeed :: "string option \<Rightarrow> footer_state \<Rightarrow> 'n action list \<Rightarrow> footer_state \<times> 'n action list" where
  "footer_succeed r s t =
     (s\<lparr>poolAddress := r, errorMessage := []\<rparr>, t @ [SetPoolAddress r, SetErrorMessage []])"

definition is_PoolCreated :: "log_event \<Rightarrow> bool" where
  "is_PoolCreated e = (event e = Some ''PoolCreated'')"

definition footer_createPool :: "'n world \<Rightarrow> footer_state \<Rightarrow> footer_state \<times> 'n action list" where
  "footer_createPool w s =
     (case footer_lazy_connect w s of
        (s1, t1) \<Rightarrow>
          if footer_unbound s then (s1, t1)
          else (case remote_createPool w (tokenA s) (tokenB s) (parseInt w (fee s)) of
                  Rejected m \<Rightarrow>
                    footer_fail ''Failed to create pool: '' m s1
                      (t1 @ [Call_createPool (tokenA s) (tokenB s) (parseInt w (fee s))])
                | Resolved tx \<Rightarrow>
                    (case tx of
                       Rejected m \<Rightarrow>
                         footer_fail ''Failed to create pool: '' m s1
                           (t1 @ [Call_createPool (tokenA s) (tokenB s) (parseInt w (fee s)),
                                  Wait_tx])
                     | Resolved rc \<Rightarrow>
                         (case find is_PoolCreated (events rc) of
                            None \<Rightarrow>
                              (s1, t1 @ [Call_createPool (tokenA s) (tokenB s) (parseInt w (fee s)),
                                         Wait_tx])
                          | Some e \<Rightarrow>
                              (case args e of
                                 None \<Rightarrow>
                                   footer_fail ''Failed to create pool: ''
                                     (undefined_read w ''pool'') s1
                                     (t1 @ [Call_createPool (tokenA s) (tokenB s)
                                              (parseInt w (fee s)), Wait_tx])
                               | Some a \<Rightarrow>
                                   footer_succeed (pool a) s1
                                     (t1 @ [Call_createPool (tokenA s) (tokenB s)
                                              (parseInt w (fee s)), Wait_tx]))))))"

definition footer_getPool :: "'n world \<Rightarrow> footer_state \<Rightarrow> footer_state \<times> 'n action list" where
  "footer_getPool w s =
     (case footer_lazy_connect w s of
        (s1, t1) \<Rightarrow>
          if footer_unbound s then (s1, t1)
          else (case remote_getPool w (tokenA s) (tokenB s) (parseInt w (fee s)) of
                  Rejected m \<Rightarrow>
                    footer_fail ''Failed to get pool: '' m s1
                      (t1 @ [Call_getPool (tokenA s) (tokenB s) (parseInt w (fee s))])
                | Resolved p \<Rightarrow>
                    footer_succeed (Some p) s1
                      (t1 @ [Call_getPool (tokenA s) (tokenB s) (parseInt w (fee s))])))"

datatype footer_op = FooterCreatePool | FooterGetPool

fun footer_run :: "'n world \<Rightarrow> footer_op \<Rightarrow> footer_state \<Rightarrow> footer_state \<times> 'n action list" where
  "footer_run w FooterCreatePool s = footer_createPool w s"
| "footer_run w FooterGetPool s = footer_getPool w s"

fun footer_runs :: "('n world \<times> footer_op) list \<Rightarrow> footer_state \<Rightarrow> footer_state \<times> 'n action list" where
  "footer_runs [] s = (s, [])"
| "footer_runs ((w, op) # rest) s =
     (case footer_run w op s of
        (s1, t1) \<Rightarrow> (case footer_runs rest s1 of (s2, t2) \<Rightarrow> (s2, t1 @ t2)))"

section \<open>Sample worlds and states\<close>

text \<open>
  Concrete worlds over integer numbers, used to run the operations. The runtime members
  are given at the arguments these runs read: the fee text \<open>3000\<close> and the numbers
  \<open>3000\<close> and \<open>60\<close>.
\<close>

definition zero_address :: string where
  "zero_address = ''0x0000000000000000000000000000000000000000''"

definition created_receipt :: receipt where
  "created_receipt =
     \<lparr>events = [\<lparr>event = Some ''PoolCreated'', args = Some \<lparr>pool = Some ''0xC0FFEE''\<rparr>\<rparr>]\<rparr>"

definition undecoded_receipt :: receipt where
  "undecoded_receipt = \<lparr>events = [\<lparr>event = None, args = None\<rparr>]\<rparr>"

definition world_ok :: "int world" where
  "world_ok =
     \<lparr>ethereum = Injected,
      eth_requestAccounts = Resolved (),
      getNetwork = Resolved 1,
      wallet_switchEthereumChain = (\<lambda>n. Resolved ()),
      remote_createPool = (\<lambda>a b f. Resolved (Resolved created_receipt)),
      remote_feeAmountTickSpacing = (\<lambda>f. Resolved 60),
      remote_getPool = (\<lambda>a b f. Resolved zero_address),
      remote_parameters =
        Resolved \<lparr>factory = contractAddress, token0 = ''0xAAA'', token1 = ''0xBBB'',
                  param_fee = 3000, tickSpacing = 60\<rparr>,
      parseInt = (\<lambda>t. if t = ''3000'' then 3000 else 0),
      toString = (\<lambda>n. if n = 3000 then ''3000'' else if n = 60 then ''60'' else ''0''),
      undefined_read = (\<lambda>member. ''Cannot read properties of undefined (reading '' @ member @ '')'')\<rparr>"

definition world_absent :: "int world" where
  "world_absent = world_ok\<lparr>ethereum := Undefined\<rparr>"

definition world_revert :: "int world" where
  "world_revert =
     world_ok
       \<lparr>remote_createPool := (\<lambda>a b f. Rejected ''execution reverted''),
        remote_feeAmountTickSpacing := (\<lambda>f. Rejected ''execution reverted''),
        remote_getPool := (\<lambda>a b f. Rejected ''execution reverted''),
        remote_parameters := Rejected ''execution reverted''\<rparr>"

definition world_wrong_chain :: "int world" where
  "world_wrong_chain = world_ok\<lparr>getNetwork := Resolved 5\<rparr>"

definition world_switch_refused :: "int world" where
  "world_switch_refused =
     world_wrong_chain\<lparr>wallet_switchEthereumChain := (\<lambda>n. Rejected ''User rejected the request'')\<rparr>"

definition world_undecoded :: "int world" where
  "world_undecoded =
     world_ok\<lparr>remote_createPool := (\<lambda>a b f. Resolved (Resolved undecoded_receipt))\<rparr>"

definition world_no_event :: "int world" where
  "world_no_event =
     world_ok\<lparr>remote_createPool := (\<lambda>a b f. Resolved (Resolved \<lparr>events = []\<rparr>))\<rparr>"

text \<open>
  The components as they mount with a wallet injected, the Footer with its three text
  fields filled in.
\<close>

definition hero_mounted :: hero_state where
  "hero_mounted = hero_init world_ok"

definition footer_mounted :: footer_state where
  "footer_mounted = (footer_init world_ok)\<lparr>tokenA := ''0xAAA'', tokenB := ''0xBBB'', fee := ''3000''\<rparr>"

text \<open>
  States with a bound contract handle, over an interface whose entries carry a
  \<open>type\<close>. The components' own \<open>init\<close> does not produce them, since the constructor
  throws on their ABI literals.
\<close>

definition typed_interface :: "fragment list" where
  "typed_interface = map (\<lambda>fr. fr\<lparr>frag_type := Some ''function''\<rparr>) hero_contractABI"

definition bound_handle :: contract_handle where
  "bound_handle = \<lparr>address = contractAddress, interface = typed_interface, runner = JsonRpcSigner\<rparr>"

definition hero_bound :: hero_state where
  "hero_bound = hero_initial\<lparr>provider := Some Web3Provider, contract := Some bound_handle\<rparr>"

definition footer_bound :: footer_state where
  "footer_bound =
     footer_initial\<lparr>provider := Some Web3Provider, signer := Some JsonRpcSigner,
                    contract := Some bound_handle,
                    tokenA := ''0xAAA'', tokenB := ''0xBBB'', fee := ''3000''\<rparr>"

section \<open>Unfolding rules and facts about the connect path\<close>

lemmas hero_defs = hero_createPool_def hero_getFeeAmountTickSpacing_def hero_getPool_def
  hero_getParameters_def hero_lazy_connect_def hero_fail_def hero_succeed_def

lemmas footer_defs = footer_createPool_def footer_getPool_def footer_lazy_connect_def
  footer_fail_def footer_succeed_def

lemmas world_defs = world_ok_def world_absent_def world_revert_def world_wrong_chain_def
  world_switch_refused_def world_undecoded_def world_no_event_def
  created_receipt_def undecoded_receipt_def

lemmas abi_defs = new_Contract_def fragment_accepted_def hero_contractABI_def
  footer_contractABI_def

lemmas init_defs = hero_mounted_def footer_mounted_def hero_bound_def footer_bound_def
  hero_init_def footer_init_def hero_initial_def footer_initial_def abi_defs

lemmas run_defs = hero_defs footer_defs hero_connectWallet_def footer_connectWallet_def
  hero_ensureChain_def footer_ensureChain_def footer_unbound_def chainId_def template_text_def
  is_PoolCreated_def shown_def

lemma hero_connectWallet_no_provider: "provider s = None \<Longrightarrow> hero_connectWallet w s = (s, [])"
  by (simp add: hero_connectWallet_def)

lemma footer_connectWallet_no_provider: "provider s = None \<Longrightarrow> footer_connectWallet w s = (s, [])"
  by (simp add: footer_connectWallet_def)

text \<open>The six ways \<open>connectWallet\<close> can go.\<close>

lemma hero_connectWallet_cases:
  "hero_connectWallet w s = (s, [])
   \<or> hero_connectWallet w s =
       (s\<lparr>error := Some ''Failed to connect wallet''\<rparr>,
        [RequestAccounts, SetError ''Failed to connect wallet''])
   \<or> hero_connectWallet w s =
       (s\<lparr>error := Some ''Failed to connect wallet''\<rparr>,
        [RequestAccounts, GetNetwork, SetError ''Failed to connect wallet''])
   \<or> hero_connectWallet w s = (s, [RequestAccounts, GetNetwork])
   \<or> hero_connectWallet w s = (s, [RequestAccounts, GetNetwork, SwitchChain chainId])
   \<or> hero_connectWallet w s =
       (s\<lparr>error := Some ''Failed to switch to the correct network''\<rparr>,
        [RequestAccounts, GetNetwork, SwitchChain chainId,
         SetError ''Failed to switch to the correct network''])"
  by (simp add: hero_connectWallet_def hero_ensureChain_def split: option.split outcome.split)

lemma footer_connectWallet_cases:
  "footer_connectWallet w s = (s, [])
   \<or> footer_connectWallet w s =
       (s\<lparr>errorMessage := ''Failed to connect wallet''\<rparr>,
        [RequestAccounts, SetErrorMessage ''Failed to connect wallet''])
   \<or> footer_connectWallet w s =
       (s\<lparr>errorMessage := ''Failed to connect wallet''\<rparr>,
        [RequestAccounts, GetNetwork, SetErrorMessage ''Failed to connect wallet''])
   \<or> footer_connectWallet w s = (s, [RequestAccounts, GetNetwork])
   \<or> footer_connectWallet w s = (s, [RequestAccounts, GetNetwork, SwitchChain chainId])
   \<or> footer_connectWallet w s =
       (s\<lparr>errorMessage := ''Failed to switch to the correct network''\<rparr>,
        [RequestAccounts, GetNetwork, SwitchChain chainId,
         SetErrorMessage ''Failed to switch to the correct network''])"
  by (simp add: footer_connectWallet_def footer_ensureChain_def split: option.split outcome.split)

lemma hero_connectWallet_no_calls:
  "a \<in> set (snd (hero_connectWallet w s)) \<Longrightarrow> \<not> is_contract_call a"
  using hero_connectWallet_cases [of w s] by auto

lemma footer_connectWallet_no_calls:
  "a \<in> set (snd (footer_connectWallet w s)) \<Longrightarrow> \<not> is_contract_call a"
  using footer_connectWallet_cases [of w s] by auto

lemma hero_connectWallet_trace:
  "failure_is_last (snd (hero_connectWallet w s)) \<and> distinct (snd (hero_connectWallet w s))"
  using hero_connectWallet_cases [of w s] by auto

lemma footer_connectWallet_trace:
  "failure_is_last (snd (footer_connectWallet w s)) \<and> distinct (snd (footer_connectWallet w s))"
  using footer_connectWallet_cases [of w s] by auto

lemma hero_connectWallet_switch:
  "provider s \<noteq> None \<Longrightarrow> eth_requestAccounts w = Resolved () \<Longrightarrow> getNetwork w = Resolved k
     \<Longrightarrow> k \<noteq> chainId
     \<Longrightarrow> take 3 (snd (hero_connectWallet w s)) = [RequestAccounts, GetNetwork, SwitchChain chainId]"
  by (auto simp add: hero_connectWallet_def hero_ensureChain_def split: outcome.splits)

lemma footer_connectWallet_switch:
  "provider s \<noteq> None \<Longrightarrow> eth_requestAccounts w = Resolved () \<Longrightarrow> getNetwork w = Resolved k
     \<Longrightarrow> k \<noteq> chainId
     \<Longrightarrow> take 3 (snd (footer_connectWallet w s)) = [RequestAccounts, GetNetwork, SwitchChain chainId]"
  by (auto simp add: footer_connectWallet_def footer_ensureChain_def split: outcome.splits)

section \<open>Operations without and with a bound contract handle\<close>

lemma hero_run_unbound: "contract s = None \<Longrightarrow> hero_run w op s = hero_connectWallet w s"
  by (cases op) (simp_all add: hero_defs split: prod.split)

lemma footer_run_unbound: "footer_unbound s \<Longrightarrow> footer_run w op s = footer_connectWallet w s"
  by (cases op) (simp_all add: footer_defs split: prod.split)

lemma hero_unbound_no_calls:
  "contract s = None \<Longrightarrow> a \<in> set (snd (hero_run w op s)) \<Longrightarrow> \<not> is_contract_call a"
  by (simp add: hero_run_unbound hero_connectWallet_no_calls)

lemma footer_unbound_no_calls:
  "footer_unbound s \<Longrightarrow> a \<in> set (snd (footer_run w op s)) \<Longrightarrow> \<not> is_contract_call a"
  by (simp add: footer_run_unbound footer_connectWallet_no_calls)

lemma hero_bound_connect: "contract s \<noteq> None \<Longrightarrow> hero_lazy_connect w s = (s, [])"
  by (auto simp add: hero_lazy_connect_def)

lemma footer_bound_connect: "\<not> footer_unbound s \<Longrightarrow> footer_lazy_connect w s = (s, [])"
  by (simp add: footer_lazy_connect_def)

lemma hero_bound_no_requests:
  "contract s \<noteq> None \<Longrightarrow> a \<in> set (snd (hero_run w op s)) \<Longrightarrow> \<not> is_provider_request a"
  by (cases op)
    (auto simp add: hero_defs split: outcome.splits list.splits option.splits)

lemma footer_bound_no_requests:
  "\<not> footer_unbound s \<Longrightarrow> a \<in> set (snd (footer_run w op s)) \<Longrightarrow> \<not> is_provider_request a"
  by (cases op)
    (auto simp add: footer_defs split: outcome.splits list.splits option.splits)

lemma hero_bound_trace:
  "contract s \<noteq> None \<Longrightarrow>
     failure_is_last (snd (hero_run w op s)) \<and> distinct (snd (hero_run w op s))"
  by (cases op)
    (auto simp add: hero_defs split: outcome.splits list.splits option.splits)

lemma footer_bound_trace:
  "\<not> footer_unbound s \<Longrightarrow>
     failure_is_last (snd (footer_run w op s)) \<and> distinct (snd (footer_run w op s))"
  by (cases op)
    (auto simp add: footer_defs split: outcome.splits list.splits option.splits)

lemma hero_init_absent:
  "\<not> truthy (ethereum w0) \<Longrightarrow>
     hero_init w0 = \<lparr>provider = None, contract = None,
                     error = Some ''Please install MetaMask to use this dApp'', result = None\<rparr>"
  by (simp add: hero_init_def hero_initial_def)

lemma footer_init_absent:
  "ethereum w0 = Undefined \<Longrightarrow>
     footer_init w0 = \<lparr>provider = None, contract = None, signer = None, tokenA = [], tokenB = [],
                       fee = [], poolAddress = Some [],
                       errorMessage = ''Please install MetaMask to use this dApp''\<rparr>"
  by (simp add: footer_init_def footer_initial_def)

text \<open>Without provider and contract handle, any sequence of operations does nothing.\<close>

lemma hero_runs_idle:
  "provider s = None \<Longrightarrow> contract s = None \<Longrightarrow> hero_runs ops s = (s, [])"
proof (induction ops)
  case Nil
  show ?case by simp
next
  case (Cons x ops)
  obtain w op where x: "x = (w, op)" by (cases x)
  from Cons.prems have "hero_run w op s = (s, [])"
    by (simp add: hero_run_unbound hero_connectWallet_no_provider)
  with Cons x show ?case by simp
qed

lemma footer_runs_idle:
  "provider s = None \<Longrightarrow> contract s = None \<Longrightarrow> footer_runs ops s = (s, [])"
proof (induction ops)
  case Nil
  show ?case by simp
next
  case (Cons x ops)
  obtain w op where x: "x = (w, op)" by (cases x)
  from Cons.prems have "footer_run w op s = (s, [])"
    by (simp add: footer_run_unbound footer_connectWallet_no_provider footer_unbound_def)
  with Cons x show ?case by simp
qed

section \<open>The state the components mount in\<close>

text \<open>
  The constructor rejects both ABI literals, so \<open>init\<close> never binds a contract handle,
  and no operation binds one later.
\<close>

lemma hero_mount_unbound: "contract (hero_init w0) = None"
  by (simp add: hero_init_def hero_initial_def abi_defs split: option.split)

lemma footer_mount_unbound: "contract (footer_init w0) = None"
  by (simp add: footer_init_def footer_initial_def abi_defs split: option.split)

lemma hero_mount_provider: "ethereum w0 = Injected \<Longrightarrow> provider (hero_init w0) = Some Web3Provider"
  by (simp add: hero_init_def hero_initial_def abi_defs)

lemma footer_mount_provider: "ethereum w0 = Injected \<Longrightarrow> provider (footer_init w0) = Some Web3Provider"
  by (simp add: footer_init_def footer_initial_def abi_defs)

lemma hero_connectWallet_session:
  "contract (fst (hero_connectWallet w s)) = contract s
   \<and> provider (fst (hero_connectWallet w s)) = provider s"
  using hero_connectWallet_cases [of w s] by auto

lemma footer_connectWallet_session:
  "contract (fst (footer_connectWallet w s)) = contract s
   \<and> provider (fst (footer_connectWallet w s)) = provider s"
  using footer_connectWallet_cases [of w s] by auto

lemma hero_runs_unbound:
  "contract s = None \<Longrightarrow>
     contract (fst (hero_runs history s)) = None
     \<and> provider (fst (hero_runs history s)) = provider s"
proof (induction history arbitrary: s)
  case Nil
  then show ?case by simp
next
  case (Cons x history)
  obtain w op where x: "x = (w, op)" by (cases x)
  let ?s1 = "fst (hero_run w op s)"
  have r: "hero_run w op s = hero_connectWallet w s"
    using Cons.prems by (rule hero_run_unbound)
  have c: "contract ?s1 = None" and p: "provider ?s1 = provider s"
    using Cons.prems hero_connectWallet_session [of w s] by (simp_all add: r)
  have "fst (hero_runs (x # history) s) = fst (hero_runs history ?s1)"
    by (simp add: x split: prod.split)
  with Cons.IH [OF c] p show ?case by simp
qed

lemma footer_runs_unbound:
  "contract s = None \<Longrightarrow>
     contract (fst (footer_runs history s)) = None
     \<and> provider (fst (footer_runs history s)) = provider s"
proof (induction history arbitrary: s)
  case Nil
  then show ?case by simp
next
  case (Cons x history)
  obtain w op where x: "x = (w, op)" by (cases x)
  let ?s1 = "fst (footer_run w op s)"
  have r: "footer_run w op s = footer_connectWallet w s"
    using Cons.prems by (simp add: footer_run_unbound footer_unbound_def)
  have c: "contract ?s1 = None" and p: "provider ?s1 = provider s"
    using Cons.prems footer_connectWallet_session [of w s] by (simp_all add: r)
  have "fst (footer_runs (x # history) s) = fst (footer_runs history ?s1)"
    by (simp add: x split: prod.split)
  with Cons.IH [OF c] p show ?case by simp
qed

lemma hero_connectWallet_no_calls_all:
  "list_all (\<lambda>a. \<not> is_contract_call a) (snd (hero_connectWallet w s))"
  using hero_connectWallet_no_calls [of _ w s] by (auto simp add: list_all_iff)

lemma footer_connectWallet_no_calls_all:
  "list_all (\<lambda>a. \<not> is_contract_call a) (snd (footer_connectWallet w s))"
  using footer_connectWallet_no_calls [of _ w s] by (auto simp add: list_all_iff)

lemma hero_connectWallet_switch_refused:
  "provider s \<noteq> None \<Longrightarrow> eth_requestAccounts w = Resolved () \<Longrightarrow> getNetwork w = Resolved k
     \<Longrightarrow> k \<noteq> chainId \<Longrightarrow> wallet_switchEthereumChain w chainId = Rejected m
     \<Longrightarrow> snd (hero_connectWallet w s) =
           [RequestAccounts, GetNetwork, SwitchChain chainId,
            SetError ''Failed to switch to the correct network'']"
  by (auto simp add: hero_connectWallet_def hero_ensureChain_def)

lemma footer_connectWallet_switch_refused:
  "provider s \<noteq> None \<Longrightarrow> eth_requestAccounts w = Resolved () \<Longrightarrow> getNetwork w = Resolved k
     \<Longrightarrow> k \<noteq> chainId \<Longrightarrow> wallet_switchEthereumChain w chainId = Rejected m
     \<Longrightarrow> snd (footer_connectWallet w s) =
           [RequestAccounts, GetNetwork, SwitchChain chainId,
            SetErrorMessage ''Failed to switch to the correct network'']"
  by (auto simp add: footer_connectWallet_def footer_ensureChain_def)

section \<open>Receipts decoded against the components' interfaces\<close>



section \<open>The claims\<close>

subsection \<open>C1: result and error\<close>

text \<open>
  C1, as amended. The claim says that after every completed operation exactly one of
  result and error is non-empty and that setting one clears the other. That fails (see
  the counterexample below). What holds: an operation writes at most one of the two
  fields, decided by how its requests are answered, and leaves the other field as it
  was, with one exception: the Footer clears the error when it stores a result.
  \<^item> Started without a bound contract handle (Footer: without handle or signer), which is
    how both components mount, an operation never writes the result. Without a provider
    it changes nothing. With a provider it writes "Failed to connect wallet" when the
    account request or the network read is rejected, "Failed to switch to the correct
    network" when the switch is rejected, and nothing when the provider is on the target
    chain or the switch is granted.
  \<^item> Started with a bound handle, Hero: a call that fails sets the error to the
    operation's prefix followed by the message and leaves the result; a call that
    succeeds sets the result to the operation's text and leaves the error. For createPool
    a confirmed receipt with no log entry, or whose first entry has no arguments, is a
    failure with the runtime's TypeError message.
  \<^item> Started with a bound handle, Footer: a call that fails sets the error message and
    leaves the result; a call that succeeds stores the returned value as result and
    clears the error; a confirmed createPool whose receipt has no PoolCreated event
    changes nothing.
\<close>

theorem operation_writes_one_field:
  "(contract hs = None \<and> provider hs = None \<longrightarrow> fst (hero_run w op hs) = hs)
   \<and> (contract hs = None \<and> provider hs \<noteq> None \<longrightarrow>
        fst (hero_run w op hs) =
          (case eth_requestAccounts w of
             Rejected m \<Rightarrow> hs\<lparr>error := Some ''Failed to connect wallet''\<rparr>
           | Resolved u \<Rightarrow>
               (case getNetwork w of
                  Rejected m \<Rightarrow> hs\<lparr>error := Some ''Failed to connect wallet''\<rparr>
                | Resolved k \<Rightarrow>
                    if k = chainId then hs
                    else (case wallet_switchEthereumChain w chainId of
                            Resolved u \<Rightarrow> hs
                          | Rejected m \<Rightarrow>
                              hs\<lparr>error := Some ''Failed to switch to the correct network''\<rparr>))))
   \<and> (contract hs \<noteq> None \<longrightarrow>
        fst (hero_createPool w a b f hs) =
          (case remote_createPool w a b f of
             Rejected m \<Rightarrow> hs\<lparr>error := Some (''Failed to create pool: '' @ m)\<rparr>
           | Resolved tx \<Rightarrow>
               (case tx of
                  Rejected m \<Rightarrow> hs\<lparr>error := Some (''Failed to create pool: '' @ m)\<rparr>
                | Resolved rc \<Rightarrow>
                    (case events rc of
                       [] \<Rightarrow>
                         hs\<lparr>error := Some (''Failed to create pool: '' @ undefined_read w ''args'')\<rparr>
                     | e # es \<Rightarrow>
                         (case args e of
                            None \<Rightarrow>
                              hs\<lparr>error :=
                                   Some (''Failed to create pool: '' @ undefined_read w ''pool'')\<rparr>
                          | Some x \<Rightarrow>
                              hs\<lparr>result :=
                                   Some (''Pool created: '' @ template_text (pool x))\<rparr>)))))
   \<and> (contract hs \<noteq> None \<longrightarrow>
        fst (hero_getFeeAmountTickSpacing w f hs) =
          (case remote_feeAmountTickSpacing w f of
             Rejected m \<Rightarrow> hs\<lparr>error := Some (''Failed to get fee amount tick spacing: '' @ m)\<rparr>
           | Resolved ts \<Rightarrow>
               hs\<lparr>result :=
                    Some (''Tick spacing for fee '' @ toString w f @ '': '' @ toString w ts)\<rparr>))
   \<and> (contract hs \<noteq> None \<longrightarrow>
        fst (hero_getPool w a b f hs) =
          (case remote_getPool w a b f of
             Rejected m \<Rightarrow> hs\<lparr>error := Some (''Failed to get pool: '' @ m)\<rparr>
           | Resolved p \<Rightarrow> hs\<lparr>result := Some (''Pool address: '' @ p)\<rparr>))
   \<and> (contract hs \<noteq> None \<longrightarrow>
        fst (hero_getParameters w hs) =
          (case remote_parameters w of
             Rejected m \<Rightarrow> hs\<lparr>error := Some (''Failed to get parameters: '' @ m)\<rparr>
           | Resolved ps \<Rightarrow> hs\<lparr>result := Some (parameters_text w ps)\<rparr>))
   \<and> (footer_unbound fs \<and> provider fs = None \<longrightarrow> fst (footer_run w fop fs) = fs)
   \<and> (footer_unbound fs \<and> provider fs \<noteq> None \<longrightarrow>
        fst (footer_run w fop fs) =
          (case eth_requestAccounts w of
             Rejected m \<Rightarrow> fs\<lparr>errorMessage := ''Failed to connect wallet''\<rparr>
           | Resolved u \<Rightarrow>
               (case getNetwork w of
                  Rejected m \<Rightarrow> fs\<lparr>errorMessage := ''Failed to connect wallet''\<rparr>
                | Resolved k \<Rightarrow>
                    if k = chainId then fs
                    else (case wallet_switchEthereumChain w chainId of
                            Resolved u \<Rightarrow> fs
                          | Rejected m \<Rightarrow>
                              fs\<lparr>errorMessage := ''Failed to switch to the correct network''\<rparr>))))
   \<and> (\<not> footer_unbound fs \<longrightarrow>
        fst (footer_createPool w fs) =
          (case remote_createPool w (tokenA fs) (tokenB fs) (parseInt w (fee fs)) of
             Rejected m \<Rightarrow> fs\<lparr>errorMessage := ''Failed to create pool: '' @ m\<rparr>
           | Resolved tx \<Rightarrow>
               (case tx of
                  Rejected m \<Rightarrow> fs\<lparr>errorMessage := ''Failed to create pool: '' @ m\<rparr>
                | Resolved rc \<Rightarrow>
                    (case find is_PoolCreated (events rc) of
                       None \<Rightarrow> fs
                     | Some e \<Rightarrow>
                         (case args e of
                            None \<Rightarrow>
                              fs\<lparr>errorMessage :=
                                   ''Failed to create pool: '' @ undefined_read w ''pool''\<rparr>
                          | Some x \<Rightarrow> fs\<lparr>poolAddress := pool x, errorMessage := []\<rparr>)))))
   \<and> (\<not> footer_unbound fs \<longrightarrow>
        fst (footer_getPool w fs) =
          (case remote_getPool w (tokenA fs) (tokenB fs) (parseInt w (fee fs)) of
             Rejected m \<Rightarrow> fs\<lparr>errorMessage := ''Failed to get pool: '' @ m\<rparr>
           | Resolved p \<Rightarrow> fs\<lparr>poolAddress := Some p, errorMessage := []\<rparr>))"
proof (intro conjI impI)
  assume "contract hs = None \<and> provider hs = None"
  then show "fst (hero_run w op hs) = hs"
    by (simp add: hero_run_unbound hero_connectWallet_no_provider)
next
  assume h: "contract hs = None \<and> provider hs \<noteq> None"
  then have "hero_run w op hs = hero_connectWallet w hs"
    by (simp add: hero_run_unbound)
  with h show "fst (hero_run w op hs) =
          (case eth_requestAccounts w of
             Rejected m \<Rightarrow> hs\<lparr>error := Some ''Failed to connect wallet''\<rparr>
           | Resolved u \<Rightarrow>
               (case getNetwork w of
                  Rejected m \<Rightarrow> hs\<lparr>error := Some ''Failed to connect wallet''\<rparr>
                | Resolved k \<Rightarrow>
                    if k = chainId then hs
                    else (case wallet_switchEthereumChain w chainId of
                            Resolved u \<Rightarrow> hs
                          | Rejected m \<Rightarrow>
                              hs\<lparr>error := Some ''Failed to switch to the correct network''\<rparr>)))"
    by (auto simp add: hero_connectWallet_def hero_ensureChain_def split: outcome.splits)
next
  assume "contract hs \<noteq> None"
  then show "fst (hero_createPool w a b f hs) =
          (case remote_createPool w a b f of
             Rejected m \<Rightarrow> hs\<lparr>error := Some (''Failed to create pool: '' @ m)\<rparr>
           | Resolved tx \<Rightarrow>
               (case tx of
                  Rejected m \<Rightarrow> hs\<lparr>error := Some (''Failed to create pool: '' @ m)\<rparr>
                | Resolved rc \<Rightarrow>
                    (case events rc of
                       [] \<Rightarrow>
                         hs\<lparr>error := Some (''Failed to create pool: '' @ undefined_read w ''args'')\<rparr>
                     | e # es \<Rightarrow>
                         (case args e of
                            None \<Rightarrow>
                              hs\<lparr>error :=
                                   Some (''Failed to create pool: '' @ undefined_read w ''pool'')\<rparr>
                          | Some x \<Rightarrow>
                              hs\<lparr>result :=
                                   Some (''Pool created: '' @ template_text (pool x))\<rparr>))))"
    by (simp add: hero_createPool_def hero_bound_connect hero_fail_def hero_succeed_def
        split: outcome.split list.split option.split)
next
  assume "contract hs \<noteq> None"
  then show "fst (hero_getFeeAmountTickSpacing w f hs) =
          (case remote_feeAmountTickSpacing w f of
             Rejected m \<Rightarrow> hs\<lparr>error := Some (''Failed to get fee amount tick spacing: '' @ m)\<rparr>
           | Resolved ts \<Rightarrow>
               hs\<lparr>result :=
                    Some (''Tick spacing for fee '' @ toString w f @ '': '' @ toString w ts)\<rparr>)"
    by (simp add: hero_getFeeAmountTickSpacing_def hero_bound_connect hero_fail_def
        hero_succeed_def split: outcome.split)
next
  assume "contract hs \<noteq> None"
  then show "fst (hero_getPool w a b f hs) =
          (case remote_getPool w a b f of
             Rejected m \<Rightarrow> hs\<lparr>error := Some (''Failed to get pool: '' @ m)\<rparr>
           | Resolved p \<Rightarrow> hs\<lparr>result := Some (''Pool address: '' @ p)\<rparr>)"
    by (simp add: hero_getPool_def hero_bound_connect hero_fail_def hero_succeed_def
        split: outcome.split)
next
  assume "contract hs \<noteq> None"
  then show "fst (hero_getParameters w hs) =
          (case remote_parameters w of
             Rejected m \<Rightarrow> hs\<lparr>error := Some (''Failed to get parameters: '' @ m)\<rparr>
           | Resolved ps \<Rightarrow> hs\<lparr>result := Some (parameters_text w ps)\<rparr>)"
    by (simp add: hero_getParameters_def hero_bound_connect hero_fail_def hero_succeed_def
        split: outcome.split)
next
  assume "footer_unbound fs \<and> provider fs = None"
  then show "fst (footer_run w fop fs) = fs"
    by (simp add: footer_run_unbound footer_connectWallet_no_provider)
next
  assume h: "footer_unbound fs \<and> provider fs \<noteq> None"
  then have "footer_run w fop fs = footer_connectWallet w fs"
    by (simp add: footer_run_unbound)
  with h show "fst (footer_run w fop fs) =
          (case eth_requestAccounts w of
             Rejected m \<Rightarrow> fs\<lparr>errorMessage := ''Failed to connect wallet''\<rparr>
           | Resolved u \<Rightarrow>
               (case getNetwork w of
                  Rejected m \<Rightarrow> fs\<lparr>errorMessage := ''Failed to connect wallet''\<rparr>
                | Resolved k \<Rightarrow>
                    if k = chainId then fs
                    else (case wallet_switchEthereumChain w chainId of
                            Resolved u \<Rightarrow> fs
                          | Rejected m \<Rightarrow>
                              fs\<lparr>errorMessage := ''Failed to switch to the correct network''\<rparr>)))"
    by (auto simp add: footer_connectWallet_def footer_ensureChain_def split: outcome.splits)
next
  assume "\<not> footer_unbound fs"
  then show "fst (footer_createPool w fs) =
          (case remote_createPool w (tokenA fs) (tokenB fs) (parseInt w (fee fs)) of
             Rejected m \<Rightarrow> fs\<lparr>errorMessage := ''Failed to create pool: '' @ m\<rparr>
           | Resolved tx \<Rightarrow>
               (case tx of
                  Rejected m \<Rightarrow> fs\<lparr>errorMessage := ''Failed to create pool: '' @ m\<rparr>
                | Resolved rc \<Rightarrow>
                    (case find is_PoolCreated (events rc) of
                       None \<Rightarrow> fs
                     | Some e \<Rightarrow>
                         (case args e of
                            None \<Rightarrow>
                              fs\<lparr>errorMessage :=
                                   ''Failed to create pool: '' @ undefined_read w ''pool''\<rparr>
                          | Some x \<Rightarrow> fs\<lparr>poolAddress := pool x, errorMessage := []\<rparr>))))"
    by (simp add: footer_createPool_def footer_bound_connect footer_fail_def footer_succeed_def
        split: outcome.split list.split option.split)
next
  assume "\<not> footer_unbound fs"
  then show "fst (footer_getPool w fs) =
          (case remote_getPool w (tokenA fs) (tokenB fs) (parseInt w (fee fs)) of
             Rejected m \<Rightarrow> fs\<lparr>errorMessage := ''Failed to get pool: '' @ m\<rparr>
           | Resolved p \<Rightarrow> fs\<lparr>poolAddress := Some p, errorMessage := []\<rparr>)"
    by (simp add: footer_getPool_def footer_bound_connect footer_fail_def footer_succeed_def
        split: outcome.split)
qed

theorem operation_writes_one_field_witness:
  "contract (hero_init world_absent) = None \<and> provider (hero_init world_absent) = None
   \<and> fst (hero_run world_ok GetParameters (hero_init world_absent)) = hero_init world_absent
   \<and> contract hero_mounted = None \<and> provider hero_mounted \<noteq> None
   \<and> fst (hero_run world_switch_refused GetParameters hero_mounted)
       = hero_mounted\<lparr>error := Some ''Failed to switch to the correct network''\<rparr>
   \<and> contract hero_bound \<noteq> None
   \<and> fst (hero_createPool world_ok ''0xAAA'' ''0xBBB'' 3000 hero_bound)
       = hero_bound\<lparr>result := Some ''Pool created: 0xC0FFEE''\<rparr>
   \<and> fst (hero_getFeeAmountTickSpacing world_ok 3000 hero_bound)
       = hero_bound\<lparr>result := Some ''Tick spacing for fee 3000: 60''\<rparr>
   \<and> fst (hero_getPool world_revert ''0xAAA'' ''0xBBB'' 3000 hero_bound)
       = hero_bound\<lparr>error := Some ''Failed to get pool: execution reverted''\<rparr>
   \<and> fst (hero_getParameters world_revert hero_bound)
       = hero_bound\<lparr>error := Some ''Failed to get parameters: execution reverted''\<rparr>
   \<and> footer_unbound (footer_init world_absent) \<and> provider (footer_init world_absent) = None
   \<and> fst (footer_run world_ok FooterGetPool (footer_init world_absent)) = footer_init world_absent
   \<and> footer_unbound footer_mounted \<and> provider footer_mounted \<noteq> None
   \<and> fst (footer_run world_switch_refused FooterGetPool footer_mounted)
       = footer_mounted\<lparr>errorMessage := ''Failed to switch to the correct network''\<rparr>
   \<and> \<not> footer_unbound footer_bound
   \<and> fst (footer_createPool world_no_event footer_bound) = footer_bound
   \<and> fst (footer_getPool world_ok footer_bound)
       = footer_bound\<lparr>poolAddress := Some zero_address, errorMessage := []\<rparr>"
proof -
  have a: "contract (hero_init world_absent) = None \<and> provider (hero_init world_absent) = None
     \<and> footer_unbound (footer_init world_absent) \<and> provider (footer_init world_absent) = None"
    by (simp add: world_defs init_defs footer_unbound_def)
  have u: "contract hero_mounted = None \<and> provider hero_mounted \<noteq> None
     \<and> footer_unbound footer_mounted \<and> provider footer_mounted \<noteq> None"
    by (simp add: world_defs init_defs footer_unbound_def)
  have b: "contract hero_bound \<noteq> None \<and> \<not> footer_unbound footer_bound"
    by (simp add: init_defs footer_unbound_def)
  have f: "tokenA footer_bound = ''0xAAA'' \<and> tokenB footer_bound = ''0xBBB''
     \<and> fee footer_bound = ''3000''"
    by (simp add: init_defs)
  have h1: "fst (hero_run world_ok GetParameters (hero_init world_absent)) = hero_init world_absent
     \<and> fst (footer_run world_ok FooterGetPool (footer_init world_absent)) = footer_init world_absent"
    using a operation_writes_one_field
      [of "hero_init world_absent" world_ok GetParameters _ _ _ "footer_init world_absent"
          FooterGetPool]
    by blast
  have h2: "fst (hero_run world_switch_refused GetParameters hero_mounted)
       = hero_mounted\<lparr>error := Some ''Failed to switch to the correct network''\<rparr>
     \<and> fst (footer_run world_switch_refused FooterGetPool footer_mounted)
       = footer_mounted\<lparr>errorMessage := ''Failed to switch to the correct network''\<rparr>"
    using u operation_writes_one_field
      [of hero_mounted world_switch_refused GetParameters _ _ _ footer_mounted FooterGetPool]
    by (simp add: world_defs chainId_def)
  have h3: "fst (hero_createPool world_ok ''0xAAA'' ''0xBBB'' 3000 hero_bound)
       = hero_bound\<lparr>result := Some ''Pool created: 0xC0FFEE''\<rparr>
     \<and> fst (hero_getFeeAmountTickSpacing world_ok 3000 hero_bound)
       = hero_bound\<lparr>result := Some ''Tick spacing for fee 3000: 60''\<rparr>
     \<and> fst (footer_getPool world_ok footer_bound)
       = footer_bound\<lparr>poolAddress := Some zero_address, errorMessage := []\<rparr>"
    using b f operation_writes_one_field
      [of hero_bound world_ok _ "''0xAAA''" "''0xBBB''" 3000 footer_bound]
    by (simp add: world_defs template_text_def)
  have h4: "fst (hero_getPool world_revert ''0xAAA'' ''0xBBB'' 3000 hero_bound)
       = hero_bound\<lparr>error := Some ''Failed to get pool: execution reverted''\<rparr>
     \<and> fst (hero_getParameters world_revert hero_bound)
       = hero_bound\<lparr>error := Some ''Failed to get parameters: execution reverted''\<rparr>"
    using b operation_writes_one_field
      [of hero_bound world_revert _ "''0xAAA''" "''0xBBB''" 3000 footer_bound]
    by (simp add: world_defs)
  have h5: "fst (footer_createPool world_no_event footer_bound) = footer_bound"
    using b f operation_writes_one_field
      [of hero_bound world_no_event _ "''0xAAA''" "''0xBBB''" 3000 footer_bound]
    by (simp add: world_defs)
  from a u b h1 h2 h3 h4 h5 show ?thesis by blast
qed

text \<open>
  C1 as stated fails. With a wallet injected, the accounts granted and the provider on
  the target chain, the first getPool after mount requests the accounts, reads the
  network and stops: neither the result nor the error is set.
\<close>

theorem neither_field_set_after_operation:
  "hero_run world_ok (GetPool ''0xAAA'' ''0xBBB'' 3000) hero_mounted
     = (hero_mounted, [RequestAccounts, GetNetwork])
   \<and> \<not> shown (error hero_mounted) \<and> \<not> shown (result hero_mounted)
   \<and> footer_run world_ok FooterGetPool footer_mounted
     = (footer_mounted, [RequestAccounts, GetNetwork])
   \<and> \<not> shown (poolAddress footer_mounted) \<and> errorMessage footer_mounted = []"
  by (simp add: world_defs init_defs run_defs)

subsection \<open>C2: the network check\<close>

text \<open>
  C2. In every state reached from mount by any sequence of operations, an operation
  attempts no contract call at all, the handle never being bound; so no call goes out
  before a switch request, and none after a switch that failed. When a wallet is
  injected, the accounts are granted and the provider reports a chain id other than the
  target, the operation requests the switch right after reading the network; when that
  request is rejected, the run ends with the write of the failure message.
\<close>

theorem switch_requested_and_no_call_without_handle:
  "list_all (\<lambda>a. \<not> is_contract_call a)
     (snd (hero_run w op (fst (hero_runs history (hero_init w0)))))
   \<and> (ethereum w0 = Injected \<and> eth_requestAccounts w = Resolved () \<and> getNetwork w = Resolved k
        \<and> k \<noteq> chainId \<longrightarrow>
        take 3 (snd (hero_run w op (fst (hero_runs history (hero_init w0)))))
          = [RequestAccounts, GetNetwork, SwitchChain chainId])
   \<and> (ethereum w0 = Injected \<and> eth_requestAccounts w = Resolved () \<and> getNetwork w = Resolved k
        \<and> k \<noteq> chainId \<and> wallet_switchEthereumChain w chainId = Rejected m \<longrightarrow>
        snd (hero_run w op (fst (hero_runs history (hero_init w0))))
          = [RequestAccounts, GetNetwork, SwitchChain chainId,
             SetError ''Failed to switch to the correct network''])
   \<and> list_all (\<lambda>a. \<not> is_contract_call a)
       (snd (footer_run w fop (fst (footer_runs fhistory (footer_init w0)))))
   \<and> (ethereum w0 = Injected \<and> eth_requestAccounts w = Resolved () \<and> getNetwork w = Resolved k
        \<and> k \<noteq> chainId \<longrightarrow>
        take 3 (snd (footer_run w fop (fst (footer_runs fhistory (footer_init w0)))))
          = [RequestAccounts, GetNetwork, SwitchChain chainId])
   \<and> (ethereum w0 = Injected \<and> eth_requestAccounts w = Resolved () \<and> getNetwork w = Resolved k
        \<and> k \<noteq> chainId \<and> wallet_switchEthereumChain w chainId = Rejected m \<longrightarrow>
        snd (footer_run w fop (fst (footer_runs fhistory (footer_init w0))))
          = [RequestAccounts, GetNetwork, SwitchChain chainId,
             SetErrorMessage ''Failed to switch to the correct network''])"
proof -
  let ?hs = "fst (hero_runs history (hero_init w0))"
  let ?fs = "fst (footer_runs fhistory (footer_init w0))"
  have hc: "contract ?hs = None" and hp: "provider ?hs = provider (hero_init w0)"
    using hero_runs_unbound [OF hero_mount_unbound, of history w0] by simp_all
  have fc: "contract ?fs = None" and fp: "provider ?fs = provider (footer_init w0)"
    using footer_runs_unbound [OF footer_mount_unbound, of fhistory w0] by simp_all
  have hr: "hero_run w op ?hs = hero_connectWallet w ?hs"
    using hc by (rule hero_run_unbound)
  have fr: "footer_run w fop ?fs = footer_connectWallet w ?fs"
    using fc by (simp add: footer_run_unbound footer_unbound_def)
  have hpi: "ethereum w0 = Injected \<Longrightarrow> provider ?hs \<noteq> None"
    by (simp add: hp hero_mount_provider)
  have fpi: "ethereum w0 = Injected \<Longrightarrow> provider ?fs \<noteq> None"
    by (simp add: fp footer_mount_provider)
  show ?thesis
  proof (intro conjI impI)
    show "list_all (\<lambda>a. \<not> is_contract_call a) (snd (hero_run w op ?hs))"
      by (simp only: hr hero_connectWallet_no_calls_all)
  next
    assume "ethereum w0 = Injected \<and> eth_requestAccounts w = Resolved ()
      \<and> getNetwork w = Resolved k \<and> k \<noteq> chainId"
    then show "take 3 (snd (hero_run w op ?hs)) = [RequestAccounts, GetNetwork, SwitchChain chainId]"
      using hpi by (simp only: hr) (simp add: hero_connectWallet_switch)
  next
    assume "ethereum w0 = Injected \<and> eth_requestAccounts w = Resolved ()
      \<and> getNetwork w = Resolved k \<and> k \<noteq> chainId
      \<and> wallet_switchEthereumChain w chainId = Rejected m"
    then show "snd (hero_run w op ?hs)
          = [RequestAccounts, GetNetwork, SwitchChain chainId,
             SetError ''Failed to switch to the correct network'']"
      using hpi by (simp only: hr) (simp add: hero_connectWallet_switch_refused)
  next
    show "list_all (\<lambda>a. \<not> is_contract_call a) (snd (footer_run w fop ?fs))"
      by (simp only: fr footer_connectWallet_no_calls_all)
  next
    assume "ethereum w0 = Injected \<and> eth_requestAccounts w = Resolved ()
      \<and> getNetwork w = Resolved k \<and> k \<noteq> chainId"
    then show "take 3 (snd (footer_run w fop ?fs)) = [RequestAccounts, GetNetwork, SwitchChain chainId]"
      using fpi by (simp only: fr) (simp add: footer_connectWallet_switch)
  next
    assume "ethereum w0 = Injected \<and> eth_requestAccounts w = Resolved ()
      \<and> getNetwork w = Resolved k \<and> k \<noteq> chainId
      \<and> wallet_switchEthereumChain w chainId = Rejected m"
    then show "snd (footer_run w fop ?fs)
          = [RequestAccounts, GetNetwork, SwitchChain chainId,
             SetErrorMessage ''Failed to switch to the correct network'']"
      using fpi by (simp only: fr) (simp add: footer_connectWallet_switch_refused)
  qed
qed

theorem switch_requested_and_no_call_without_handle_witness:
  "ethereum world_ok = Injected \<and> eth_requestAccounts world_switch_refused = Resolved ()
   \<and> getNetwork world_switch_refused = Resolved 5 \<and> 5 \<noteq> chainId
   \<and> wallet_switchEthereumChain world_switch_refused chainId
       = Rejected ''User rejected the request''
   \<and> take 3 (snd (hero_run world_switch_refused (GetPool ''0xAAA'' ''0xBBB'' 3000)
               (fst (hero_runs [(world_ok, GetParameters)] (hero_init world_ok)))))
       = [RequestAccounts, GetNetwork, SwitchChain chainId]
   \<and> snd (hero_run world_switch_refused (GetPool ''0xAAA'' ''0xBBB'' 3000)
            (fst (hero_runs [(world_ok, GetParameters)] (hero_init world_ok))))
       = [RequestAccounts, GetNetwork, SwitchChain chainId,
          SetError ''Failed to switch to the correct network'']
   \<and> list_all (\<lambda>a. \<not> is_contract_call a)
        (snd (hero_run world_switch_refused (GetPool ''0xAAA'' ''0xBBB'' 3000)
               (fst (hero_runs [(world_ok, GetParameters)] (hero_init world_ok)))))
   \<and> take 3 (snd (footer_run world_switch_refused FooterGetPool
               (fst (footer_runs [(world_ok, FooterCreatePool)] (footer_init world_ok)))))
       = [RequestAccounts, GetNetwork, SwitchChain chainId]
   \<and> snd (footer_run world_switch_refused FooterGetPool
            (fst (footer_runs [(world_ok, FooterCreatePool)] (footer_init world_ok))))
       = [RequestAccounts, GetNetwork, SwitchChain chainId,
          SetErrorMessage ''Failed to switch to the correct network'']
   \<and> list_all (\<lambda>a. \<not> is_contract_call a)
        (snd (footer_run world_switch_refused FooterGetPool
               (fst (footer_runs [(world_ok, FooterCreatePool)] (footer_init world_ok)))))"
proof -
  have h: "ethereum world_ok = Injected \<and> eth_requestAccounts world_switch_refused = Resolved ()
     \<and> getNetwork world_switch_refused = Resolved 5 \<and> 5 \<noteq> chainId
     \<and> wallet_switchEthereumChain world_switch_refused chainId
         = Rejected ''User rejected the request''"
    by (simp add: world_defs chainId_def)
  from h switch_requested_and_no_call_without_handle
    [of world_switch_refused "GetPool ''0xAAA'' ''0xBBB'' 3000" "[(world_ok, GetParameters)]"
        world_ok 5 "''User rejected the request''" FooterGetPool
        "[(world_ok, FooterCreatePool)]"]
  show ?thesis by blast
qed

subsection \<open>C3: calls need a bound contract handle\<close>

text \<open>
  C3. An operation started without a contract handle (Footer: without contract handle or
  signer) does what \<open>connectWallet\<close> does and nothing more, so it attempts no contract
  call; hence a run that holds a contract call was started with the handle bound.
\<close>

theorem call_needs_bound_contract:
  "(contract hs = None \<longrightarrow>
      hero_run w op hs = hero_connectWallet w hs
      \<and> (\<forall>a \<in> set (snd (hero_run w op hs)). \<not> is_contract_call a))
   \<and> ((\<exists>a \<in> set (snd (hero_run w op hs)). is_contract_call a) \<longrightarrow> contract hs \<noteq> None)
   \<and> (footer_unbound fs \<longrightarrow>
      footer_run w fop fs = footer_connectWallet w fs
      \<and> (\<forall>a \<in> set (snd (footer_run w fop fs)). \<not> is_contract_call a))
   \<and> ((\<exists>a \<in> set (snd (footer_run w fop fs)). is_contract_call a)
        \<longrightarrow> contract fs \<noteq> None \<and> signer fs \<noteq> None)"
proof (intro conjI impI)
  assume "contract hs = None"
  then show "hero_run w op hs = hero_connectWallet w hs"
    by (rule hero_run_unbound)
next
  assume "contract hs = None"
  then show "\<forall>a \<in> set (snd (hero_run w op hs)). \<not> is_contract_call a"
    using hero_unbound_no_calls by blast
next
  assume "\<exists>a \<in> set (snd (hero_run w op hs)). is_contract_call a"
  then show "contract hs \<noteq> None"
    using hero_unbound_no_calls by blast
next
  assume "footer_unbound fs"
  then show "footer_run w fop fs = footer_connectWallet w fs"
    by (rule footer_run_unbound)
next
  assume "footer_unbound fs"
  then show "\<forall>a \<in> set (snd (footer_run w fop fs)). \<not> is_contract_call a"
    using footer_unbound_no_calls by blast
next
  assume c: "\<exists>a \<in> set (snd (footer_run w fop fs)). is_contract_call a"
  then have u: "\<not> footer_unbound fs"
    using footer_unbound_no_calls by blast
  then show "contract fs \<noteq> None"
    by (simp add: footer_unbound_def)
  from u show "signer fs \<noteq> None"
    by (simp add: footer_unbound_def)
qed

theorem call_needs_bound_contract_witness:
  "contract hero_mounted = None
   \<and> hero_run world_ok (GetPool ''0xAAA'' ''0xBBB'' 3000) hero_mounted
       = hero_connectWallet world_ok hero_mounted
   \<and> snd (hero_run world_ok (GetPool ''0xAAA'' ''0xBBB'' 3000) hero_mounted)
       = [RequestAccounts, GetNetwork]
   \<and> footer_unbound footer_mounted
   \<and> footer_run world_ok FooterGetPool footer_mounted
       = footer_connectWallet world_ok footer_mounted
   \<and> snd (footer_run world_ok FooterGetPool footer_mounted) = [RequestAccounts, GetNetwork]
   \<and> (\<exists>a \<in> set (snd (hero_run world_ok (GetPool ''0xAAA'' ''0xBBB'' 3000) hero_bound)).
         is_contract_call a)
   \<and> contract hero_bound \<noteq> None
   \<and> (\<exists>a \<in> set (snd (footer_run world_ok FooterGetPool footer_bound)). is_contract_call a)
   \<and> contract footer_bound \<noteq> None \<and> signer footer_bound \<noteq> None"
proof -
  have u: "contract hero_mounted = None \<and> footer_unbound footer_mounted"
    by (simp add: world_defs init_defs footer_unbound_def)
  have t: "snd (hero_run world_ok (GetPool ''0xAAA'' ''0xBBB'' 3000) hero_mounted)
       = [RequestAccounts, GetNetwork]
     \<and> snd (footer_run world_ok FooterGetPool footer_mounted) = [RequestAccounts, GetNetwork]"
    by (simp add: world_defs init_defs run_defs)
  have c: "(\<exists>a \<in> set (snd (hero_run world_ok (GetPool ''0xAAA'' ''0xBBB'' 3000) hero_bound)).
              is_contract_call a)
     \<and> (\<exists>a \<in> set (snd (footer_run world_ok FooterGetPool footer_bound)). is_contract_call a)"
    by (simp add: world_defs init_defs run_defs)
  from u t c
    call_needs_bound_contract
      [of hero_mounted world_ok "GetPool ''0xAAA'' ''0xBBB'' 3000"
          footer_mounted FooterGetPool]
    call_needs_bound_contract
      [of hero_bound world_ok "GetPool ''0xAAA'' ''0xBBB'' 3000" footer_bound FooterGetPool]
  show ?thesis by blast
qed

subsection \<open>C4: the receipt of createPool\<close>



subsection \<open>C5: a surfaced failure ends the operation\<close>

text \<open>
  C5. In the run of any operation nothing follows the write of a failure message: no
  provider request, no contract call, no further write. No action occurs twice in a run,
  so nothing is retried.
\<close>

theorem failure_ends_operation:
  "failure_is_last (snd (hero_run w op hs)) \<and> distinct (snd (hero_run w op hs))
   \<and> failure_is_last (snd (footer_run w fop fs)) \<and> distinct (snd (footer_run w fop fs))"
proof -
  have h: "failure_is_last (snd (hero_run w op hs)) \<and> distinct (snd (hero_run w op hs))"
  proof (cases "contract hs = None")
    case True
    then show ?thesis
      using hero_connectWallet_trace [of w hs] by (simp add: hero_run_unbound)
  next
    case False
    then show ?thesis by (rule hero_bound_trace)
  qed
  have f: "failure_is_last (snd (footer_run w fop fs)) \<and> distinct (snd (footer_run w fop fs))"
  proof (cases "footer_unbound fs")
    case True
    then show ?thesis
      using footer_connectWallet_trace [of w fs] by (simp add: footer_run_unbound)
  next
    case False
    then show ?thesis by (rule footer_bound_trace)
  qed
  from h f show ?thesis by simp
qed

theorem failure_ends_operation_witness:
  "snd (hero_run world_revert (GetPool ''0xAAA'' ''0xBBB'' 3000) hero_bound)
     = [Call_getPool ''0xAAA'' ''0xBBB'' 3000, SetError ''Failed to get pool: execution reverted'']
   \<and> failure_is_last (snd (hero_run world_revert (GetPool ''0xAAA'' ''0xBBB'' 3000) hero_bound))
   \<and> snd (footer_run world_switch_refused FooterCreatePool footer_mounted)
     = [RequestAccounts, GetNetwork, SwitchChain chainId,
        SetErrorMessage ''Failed to switch to the correct network'']
   \<and> failure_is_last (snd (footer_run world_switch_refused FooterCreatePool footer_mounted))"
proof -
  have h: "snd (hero_run world_revert (GetPool ''0xAAA'' ''0xBBB'' 3000) hero_bound)
     = [Call_getPool ''0xAAA'' ''0xBBB'' 3000, SetError ''Failed to get pool: execution reverted'']
   \<and> snd (footer_run world_switch_refused FooterCreatePool footer_mounted)
     = [RequestAccounts, GetNetwork, SwitchChain chainId,
        SetErrorMessage ''Failed to switch to the correct network'']"
    by (simp add: world_defs init_defs run_defs)
  from h failure_ends_operation [of world_revert "GetPool ''0xAAA'' ''0xBBB'' 3000" hero_bound]
    failure_ends_operation [of world_switch_refused _ _ FooterCreatePool footer_mounted]
  show ?thesis by blast
qed

subsection \<open>C6: no wallet\<close>

text \<open>
  C6. When no injected wallet is detected at mount (Hero: \<open>window.ethereum\<close> is not
  truthy; Footer: it is undefined), the mounted state holds the message "Please install
  MetaMask to use this dApp", no provider, no contract handle and no result; and any
  sequence of operations, whatever the world answers, leaves that state as it is and
  makes no request and no call.
\<close>

theorem no_wallet_only_error:
  "(\<not> truthy (ethereum w0) \<longrightarrow>
      hero_init w0 = \<lparr>provider = None, contract = None,
                      error = Some ''Please install MetaMask to use this dApp'', result = None\<rparr>
      \<and> hero_runs ops (hero_init w0) = (hero_init w0, []))
   \<and> (ethereum w0 = Undefined \<longrightarrow>
      footer_init w0 = \<lparr>provider = None, contract = None, signer = None, tokenA = [],
                        tokenB = [], fee = [], poolAddress = Some [],
                        errorMessage = ''Please install MetaMask to use this dApp''\<rparr>
      \<and> footer_runs fops (footer_init w0) = (footer_init w0, []))"
  by (simp add: hero_init_absent footer_init_absent hero_runs_idle footer_runs_idle)

theorem no_wallet_only_error_witness:
  "\<not> truthy (ethereum world_absent) \<and> ethereum world_absent = Undefined
   \<and> hero_init world_absent
       = \<lparr>provider = None, contract = None,
          error = Some ''Please install MetaMask to use this dApp'', result = None\<rparr>
   \<and> hero_runs [(world_ok, CreatePool ''0xAAA'' ''0xBBB'' 3000), (world_ok, GetParameters)]
        (hero_init world_absent) = (hero_init world_absent, [])
   \<and> footer_init world_absent
       = \<lparr>provider = None, contract = None, signer = None, tokenA = [], tokenB = [], fee = [],
          poolAddress = Some [], errorMessage = ''Please install MetaMask to use this dApp''\<rparr>
   \<and> footer_runs [(world_ok, FooterCreatePool), (world_ok, FooterGetPool)]
        (footer_init world_absent) = (footer_init world_absent, [])"
proof -
  have h: "\<not> truthy (ethereum world_absent) \<and> ethereum world_absent = Undefined"
    by (simp add: world_defs)
  from h no_wallet_only_error
    [of world_absent "[(world_ok, CreatePool ''0xAAA'' ''0xBBB'' 3000), (world_ok, GetParameters)]"
        "[(world_ok, FooterCreatePool), (world_ok, FooterGetPool)]"]
  show ?thesis by blast
qed

subsection \<open>C7: a failed read call\<close>

text \<open>
  C7. When a read call (Hero: getPool, feeAmountTickSpacing, parameters; Footer: getPool)
  on a bound handle fails with message \<open>m\<close>, the error becomes the operation's fixed
  prefix followed by \<open>m\<close> unchanged, and the result field is left as it was.
\<close>

theorem read_failure_message_passed_through:
  "(contract hs \<noteq> None \<and> remote_getPool w a b f = Rejected m \<longrightarrow>
      error (fst (hero_getPool w a b f hs)) = Some (''Failed to get pool: '' @ m)
      \<and> result (fst (hero_getPool w a b f hs)) = result hs)
   \<and> (contract hs \<noteq> None \<and> remote_feeAmountTickSpacing w f = Rejected m \<longrightarrow>
      error (fst (hero_getFeeAmountTickSpacing w f hs)) =
        Some (''Failed to get fee amount tick spacing: '' @ m)
      \<and> result (fst (hero_getFeeAmountTickSpacing w f hs)) = result hs)
   \<and> (contract hs \<noteq> None \<and> remote_parameters w = Rejected m \<longrightarrow>
      error (fst (hero_getParameters w hs)) = Some (''Failed to get parameters: '' @ m)
      \<and> result (fst (hero_getParameters w hs)) = result hs)
   \<and> (\<not> footer_unbound fs
       \<and> remote_getPool w (tokenA fs) (tokenB fs) (parseInt w (fee fs)) = Rejected m \<longrightarrow>
      errorMessage (fst (footer_getPool w fs)) = ''Failed to get pool: '' @ m
      \<and> poolAddress (fst (footer_getPool w fs)) = poolAddress fs)"
  by (simp add: hero_getPool_def hero_getFeeAmountTickSpacing_def hero_getParameters_def
      footer_getPool_def hero_bound_connect footer_bound_connect hero_fail_def footer_fail_def)

theorem read_failure_message_passed_through_witness:
  "contract hero_bound \<noteq> None \<and> \<not> footer_unbound footer_bound
   \<and> remote_getPool world_revert ''0xAAA'' ''0xBBB'' 3000 = Rejected ''execution reverted''
   \<and> remote_feeAmountTickSpacing world_revert 3000 = Rejected ''execution reverted''
   \<and> remote_parameters world_revert = Rejected ''execution reverted''
   \<and> error (fst (hero_getPool world_revert ''0xAAA'' ''0xBBB'' 3000 hero_bound))
       = Some ''Failed to get pool: execution reverted''
   \<and> result (fst (hero_getPool world_revert ''0xAAA'' ''0xBBB'' 3000 hero_bound)) = None
   \<and> error (fst (hero_getFeeAmountTickSpacing world_revert 3000 hero_bound))
       = Some ''Failed to get fee amount tick spacing: execution reverted''
   \<and> error (fst (hero_getParameters world_revert hero_bound))
       = Some ''Failed to get parameters: execution reverted''
   \<and> errorMessage (fst (footer_getPool world_revert footer_bound))
       = ''Failed to get pool: execution reverted''
   \<and> poolAddress (fst (footer_getPool world_revert footer_bound)) = Some []"
proof -
  have h: "contract hero_bound \<noteq> None \<and> \<not> footer_unbound footer_bound
     \<and> remote_getPool world_revert ''0xAAA'' ''0xBBB'' 3000 = Rejected ''execution reverted''
     \<and> remote_feeAmountTickSpacing world_revert 3000 = Rejected ''execution reverted''
     \<and> remote_parameters world_revert = Rejected ''execution reverted''
     \<and> remote_getPool world_revert (tokenA footer_bound) (tokenB footer_bound)
          (parseInt world_revert (fee footer_bound)) = Rejected ''execution reverted''
     \<and> result hero_bound = None \<and> poolAddress footer_bound = Some []"
    by (simp add: world_defs init_defs footer_unbound_def)
  from h read_failure_message_passed_through
    [of hero_bound world_revert "''0xAAA''" "''0xBBB''" 3000 "''execution reverted''"
        footer_bound]
  show ?thesis by simp
qed

subsection \<open>C8: the network check on the target chain\<close>

text \<open>
  C8. When the chain id the provider reported equals the target chain id, the network
  check requests nothing and changes nothing; \<open>connectWallet\<close> as a whole then only
  requests the accounts and reads the network.
\<close>

theorem ensureChain_on_target_is_noop:
  "hero_ensureChain w chainId hs = (hs, [])
   \<and> footer_ensureChain w chainId fs = (fs, [])
   \<and> (provider hs \<noteq> None \<and> eth_requestAccounts w = Resolved () \<and> getNetwork w = Resolved chainId
        \<longrightarrow> hero_connectWallet w hs = (hs, [RequestAccounts, GetNetwork]))
   \<and> (provider fs \<noteq> None \<and> eth_requestAccounts w = Resolved () \<and> getNetwork w = Resolved chainId
        \<longrightarrow> footer_connectWallet w fs = (fs, [RequestAccounts, GetNetwork]))"
  by (auto simp add: hero_ensureChain_def footer_ensureChain_def hero_connectWallet_def
      footer_connectWallet_def)

theorem ensureChain_on_target_is_noop_witness:
  "provider hero_mounted \<noteq> None \<and> provider footer_mounted \<noteq> None
   \<and> eth_requestAccounts world_ok = Resolved () \<and> getNetwork world_ok = Resolved chainId
   \<and> hero_ensureChain world_ok chainId hero_mounted = (hero_mounted, [])
   \<and> footer_ensureChain world_ok chainId footer_mounted = (footer_mounted, [])
   \<and> hero_connectWallet world_ok hero_mounted = (hero_mounted, [RequestAccounts, GetNetwork])
   \<and> footer_connectWallet world_ok footer_mounted = (footer_mounted, [RequestAccounts, GetNetwork])"
proof -
  have h: "provider hero_mounted \<noteq> None \<and> provider footer_mounted \<noteq> None
     \<and> eth_requestAccounts world_ok = Resolved () \<and> getNetwork world_ok = Resolved chainId"
    by (simp add: world_defs init_defs chainId_def)
  from h ensureChain_on_target_is_noop [of world_ok hero_mounted footer_mounted]
  show ?thesis by simp
qed

subsection \<open>C9: connectWallet without a provider\<close>

text \<open>
  C9. When no provider was constructed at mount, no wallet being injected,
  \<open>connectWallet\<close> on the mounted state makes no request and returns the state as it
  was; in particular it writes no error message. The state being unchanged, the same
  holds for every later invocation.
\<close>

theorem connectWallet_without_provider_is_noop:
  "ethereum w0 \<noteq> Injected \<Longrightarrow>
     provider (hero_init w0) = None \<and> provider (footer_init w0) = None
     \<and> hero_connectWallet w (hero_init w0) = (hero_init w0, [])
     \<and> footer_connectWallet w (footer_init w0) = (footer_init w0, [])"
proof -
  assume "ethereum w0 \<noteq> Injected"
  then have p: "provider (hero_init w0) = None \<and> provider (footer_init w0) = None"
    by (cases "ethereum w0")
      (simp_all add: hero_init_def footer_init_def hero_initial_def footer_initial_def)
  then show ?thesis
    by (simp add: hero_connectWallet_no_provider footer_connectWallet_no_provider)
qed

theorem connectWallet_without_provider_is_noop_witness:
  "ethereum world_absent \<noteq> Injected
   \<and> provider (hero_init world_absent) = None \<and> provider (footer_init world_absent) = None
   \<and> hero_connectWallet world_ok (hero_init world_absent) = (hero_init world_absent, [])
   \<and> footer_connectWallet world_ok (footer_init world_absent) = (footer_init world_absent, [])"
proof -
  have h: "ethereum world_absent \<noteq> Injected"
    by (simp add: world_defs)
  from h connectWallet_without_provider_is_noop [OF h, of world_ok] show ?thesis by blast
qed

subsection \<open>C10: getPool stores whatever address comes back\<close>

text \<open>
  C10. When getPool on a bound handle returns an address \<open>p\<close>, any text at all and so
  also the zero address, the run is the call followed by the write of the result: Hero
  stores "Pool address: " followed by \<open>p\<close> and leaves the error as it was; Footer stores
  \<open>p\<close> and clears the error. No error is written.
\<close>

theorem getPool_stores_any_address:
  "(contract hs \<noteq> None \<and> remote_getPool w a b f = Resolved p \<longrightarrow>
      hero_getPool w a b f hs =
        (hs\<lparr>result := Some (''Pool address: '' @ p)\<rparr>,
         [Call_getPool a b f, SetResult (''Pool address: '' @ p)]))
   \<and> (\<not> footer_unbound fs
       \<and> remote_getPool w (tokenA fs) (tokenB fs) (parseInt w (fee fs)) = Resolved p \<longrightarrow>
      footer_getPool w fs =
        (fs\<lparr>poolAddress := Some p, errorMessage := []\<rparr>,
         [Call_getPool (tokenA fs) (tokenB fs) (parseInt w (fee fs)),
          SetPoolAddress (Some p), SetErrorMessage []]))"
  by (simp add: hero_getPool_def footer_getPool_def hero_bound_connect footer_bound_connect
      hero_succeed_def footer_succeed_def)

theorem getPool_stores_any_address_witness:
  "contract hero_bound \<noteq> None \<and> \<not> footer_unbound footer_bound
   \<and> remote_getPool world_ok ''0xAAA'' ''0xBBB'' 3000 = Resolved zero_address
   \<and> result (fst (hero_getPool world_ok ''0xAAA'' ''0xBBB'' 3000 hero_bound))
       = Some (''Pool address: '' @ zero_address)
   \<and> error (fst (hero_getPool world_ok ''0xAAA'' ''0xBBB'' 3000 hero_bound)) = None
   \<and> poolAddress (fst (footer_getPool world_ok footer_bound)) = Some zero_address
   \<and> errorMessage (fst (footer_getPool world_ok footer_bound)) = []"
proof -
  have h: "contract hero_bound \<noteq> None \<and> \<not> footer_unbound footer_bound
     \<and> remote_getPool world_ok ''0xAAA'' ''0xBBB'' 3000 = Resolved zero_address
     \<and> remote_getPool world_ok (tokenA footer_bound) (tokenB footer_bound)
          (parseInt world_ok (fee footer_bound)) = Resolved zero_address
     \<and> error hero_bound = None"
    by (simp add: world_defs init_defs footer_unbound_def)
  from h getPool_stores_any_address
    [of hero_bound world_ok "''0xAAA''" "''0xBBB''" 3000 zero_address footer_bound]
  show ?thesis by simp
qed

end
